theory Spec2Isabelle
  imports Complex_Main "HOL-Library.Char_ord" "HOL-Library.List_Lexorder" "HOL-Library.Multiset"
    "HOL-Library.Log_Nat"
begin

section \<open>The expense tracker: data model\<close>

text \<open>
  The program (\<^verbatim>\<open>expensetracker.py\<close>) keeps twelve monthly tables in one SQLite
  file and one CSV file per month in the directory \<^verbatim>\<open>data\<close>. A row of a CSV
  file (and of the DataFrame read from it) has the six columns written on lines 22-29 of the
  source. The columns \<^verbatim>\<open>Amount_Paid\<close> and \<^verbatim>\<open>Cashback\<close> are
  floating-point numbers in the program; here a value of these columns is a rational (every
  double is one). The generator's arithmetic is done on exact rationals. The sums of SQL's
  \<^verbatim>\<open>SUM\<close> are the engine's floating-point sums, a parameter of the query. Every
  column holds a value of its declared type (no NULL).
\<close>

record expense =
  Date :: string
  Category :: string
  Payment_Mode :: string
  Description :: string
  Amount_Paid :: rat
  Cashback :: rat

text \<open>
  A table made by \<^verbatim>\<open>create_tables\<close> has the column \<^verbatim>\<open>ID INTEGER PRIMARY KEY\<close>
  before the six data columns. A table made by \<^verbatim>\<open>DataFrame.to_sql\<close> (which creates
  a missing table from the DataFrame's columns) has the six data columns only.
\<close>

datatype table = WithID "(int \<times> expense) list" | NoID "expense list"

type_synonym database = "string \<rightharpoonup> table"

text \<open>
  What \<^verbatim>\<open>pd.read_csv\<close> makes of an existing file: a DataFrame with the six
  columns, or an exception (an empty or malformed file).
\<close>

datatype csv_file = Csv "expense list" | Unparsable

datatype error = DatabaseError | ParserError | IndexError | NameError | SyntaxError

text \<open>A row of a query result: the ID column where the tables have one, and the six columns.\<close>

type_synonym result_row = "int option \<times> expense"

datatype ui_event =
    Title string
  | Widget string
  | Subheader string
  | Success string
  | Warning string
  | Totals "(string \<times> rat) list"
  | Chart "(string \<times> rat) list"
  | Dataframe "result_row list"
  | Download string "result_row list"

record world =
  data_dir :: bool
  files :: "string \<rightharpoonup> csv_file"
  db :: database
  ui :: "ui_event list"

fun columns :: "table \<Rightarrow> nat" where
  "columns (WithID rs) = 7"
| "columns (NoID rs) = 6"

fun table_rows :: "table \<Rightarrow> result_row list" where
  "table_rows (WithID rs) = map (\<lambda>(i, r). (Some i, r)) rs"
| "table_rows (NoID rs) = map (\<lambda>r. (None, r)) rs"

definition row_count :: "database \<Rightarrow> string \<Rightarrow> nat" where
  "row_count d name = (case d name of None \<Rightarrow> 0 | Some t \<Rightarrow> length (table_rows t))"

section \<open>Names of tables and files\<close>

text \<open>\<^verbatim>\<open>str(n)\<close> of a natural number, and the format \<^verbatim>\<open>{n:02d}\<close>.\<close>

definition digit :: "nat \<Rightarrow> char" where
  "digit d = ''0123456789'' ! (d mod 10)"

fun str_nat :: "nat \<Rightarrow> string" where
  "str_nat n = (if n < 10 then [digit n] else str_nat (n div 10) @ [digit (n mod 10)])"

declare str_nat.simps [simp del]

definition zfill :: "nat \<Rightarrow> string \<Rightarrow> string" where
  "zfill width s = replicate (width - length s) CHR ''0'' @ s"

definition fmt_02d :: "nat \<Rightarrow> string" where
  "fmt_02d n = zfill 2 (str_nat n)"

text \<open>\<^verbatim>\<open>range(1, 13)\<close>\<close>

definition months :: "nat list" where
  "months = [1..<13]"

text \<open>\<^verbatim>\<open>f"Expenses_{month:02d}"\<close> and \<^verbatim>\<open>f"expenses_{month}.csv"\<close>\<close>

definition table_name :: "nat \<Rightarrow> string" where
  "table_name month = ''Expenses_'' @ fmt_02d month"

definition csv_name :: "nat \<Rightarrow> string" where
  "csv_name month = ''expenses_'' @ str_nat month @ ''.csv''"

section \<open>create_tables\<close>

text \<open>
  \<^verbatim>\<open>CREATE TABLE IF NOT EXISTS\<close>: a table of that name stays as it is, a missing one
  is created empty with the ID column.
\<close>

definition create_table_if_not_exists :: "string \<Rightarrow> database \<Rightarrow> database" where
  "create_table_if_not_exists name d =
     (case d name of None \<Rightarrow> d(name \<mapsto> WithID []) | Some t \<Rightarrow> d)"

fun create_loop :: "nat list \<Rightarrow> database \<Rightarrow> database" where
  "create_loop [] d = d"
| "create_loop (month # rest) d = create_loop rest (create_table_if_not_exists (table_name month) d)"

definition create_tables :: "world \<Rightarrow> world" where
  "create_tables w =
     w\<lparr>db := create_loop months (db w),
       ui := ui w @ [Success ''Tables created for all 12 months.'']\<rparr>"

section \<open>generate_sample_data\<close>

text \<open>
  The random sources (\<^verbatim>\<open>random\<close> and \<^verbatim>\<open>Faker\<close>) are an oracle: for the
  \<open>i\<close>-th transaction of a month it gives the date and the sentence that Faker returns and
  the raw numbers behind the four calls of \<^verbatim>\<open>random\<close>.
  \<^verbatim>\<open>random.choice(seq)\<close> is \<^verbatim>\<open>seq[_randbelow(len(seq))]\<close> and raises
  IndexError on an empty sequence; \<^verbatim>\<open>random.random()\<close> is a multiple of \<^verbatim>\<open>2**-53\<close>
  in \<open>[0, 1)\<close>; \<^verbatim>\<open>random.uniform(a, b)\<close> is \<^verbatim>\<open>a + (b - a) * random()\<close>;
  \<^verbatim>\<open>round(x, 2)\<close> rounds to the nearest multiple of \<open>1/100\<close>, a tie to the even one.
\<close>

record date =
  year :: nat
  month_of :: nat
  day :: nat

definition str_date :: "date \<Rightarrow> string" where
  "str_date d = zfill 4 (str_nat (year d)) @ ''-'' @ zfill 2 (str_nat (month_of d)) @ ''-'' @
     zfill 2 (str_nat (day d))"

record draw =
  date_this_year :: date
  category_draw :: nat
  payment_mode_draw :: nat
  sentence :: string
  amount_draw :: nat
  cashback_draw :: nat

type_synonym random_source = "nat \<Rightarrow> nat \<Rightarrow> draw"

definition categories :: "string list" where
  "categories = [''Food'', ''Transportation'', ''Bills'', ''Groceries'', ''Subscriptions'', ''Others'']"

definition payment_modes :: "string list" where
  "payment_modes = [''Cash'', ''Online'']"

definition random_choice :: "'a list \<Rightarrow> nat \<Rightarrow> error + 'a" where
  "random_choice seq k = (if seq = [] then Inl IndexError else Inr (seq ! (k mod length seq)))"

definition random_random :: "nat \<Rightarrow> rat" where
  "random_random k = of_nat (k mod 2 ^ 53) / 2 ^ 53"

definition random_uniform :: "rat \<Rightarrow> rat \<Rightarrow> nat \<Rightarrow> rat" where
  "random_uniform a b k = a + (b - a) * random_random k"

definition round_half_even :: "rat \<Rightarrow> int" where
  "round_half_even x =
     (let f = \<lfloor>x\<rfloor>; d = x - of_int f
      in if d < 1 / 2 then f else if 1 / 2 < d then f + 1 else if even f then f else f + 1)"

definition round2 :: "rat \<Rightarrow> rat" where
  "round2 x = of_int (round_half_even (x * 100)) / 100"

definition transaction :: "draw \<Rightarrow> error + expense" where
  "transaction r =
     (case random_choice categories (category_draw r) of
        Inl e \<Rightarrow> Inl e
      | Inr c \<Rightarrow>
          (case random_choice payment_modes (payment_mode_draw r) of
             Inl e \<Rightarrow> Inl e
           | Inr p \<Rightarrow>
               Inr \<lparr>Date = str_date (date_this_year r), Category = c, Payment_Mode = p,
                    Description = sentence r,
                    Amount_Paid = round2 (random_uniform 10 500 (amount_draw r)),
                    Cashback = round2 (random_uniform 0 20 (cashback_draw r))\<rparr>))"

text \<open>The inner loop, \<^verbatim>\<open>for _ in range(500)\<close>, appending to \<^verbatim>\<open>data\<close>.\<close>

fun month_data :: "(nat \<Rightarrow> draw) \<Rightarrow> nat list \<Rightarrow> expense list \<Rightarrow> error + expense list" where
  "month_data rnd [] data = Inr data"
| "month_data rnd (i # rest) data =
     (case transaction (rnd i) of
        Inl e \<Rightarrow> Inl e
      | Inr t \<Rightarrow> month_data rnd rest (data @ [t]))"

text \<open>
  The outer loop: the files of the months before a failure are written. A result
  \<open>Inl (e, w)\<close> is the exception \<open>e\<close> raised in the world \<open>w\<close>.
\<close>

fun generate_loop :: "random_source \<Rightarrow> nat list \<Rightarrow> world \<Rightarrow> error \<times> world + world" where
  "generate_loop rnd [] w = Inr w"
| "generate_loop rnd (month # rest) w =
     (case month_data (rnd month) [0..<500] [] of
        Inl e \<Rightarrow> Inl (e, w)
      | Inr data \<Rightarrow> generate_loop rnd rest (w\<lparr>files := (files w)(csv_name month \<mapsto> Csv data)\<rparr>))"

definition generate_sample_data :: "random_source \<Rightarrow> world \<Rightarrow> error \<times> world + world" where
  "generate_sample_data rnd w =
     (case generate_loop rnd months w of
        Inl e \<Rightarrow> Inl e
      | Inr w' \<Rightarrow> Inr (w'\<lparr>ui := ui w' @ [Success ''Sample data generated for all 12 months.'']\<rparr>))"

text \<open>The ranges of a generated record.\<close>

definition generated :: "expense \<Rightarrow> bool" where
  "generated r \<longleftrightarrow>
     Category r \<in> {''Food'', ''Transportation'', ''Bills'', ''Groceries'', ''Subscriptions'', ''Others''} \<and>
     Payment_Mode r \<in> {''Cash'', ''Online''} \<and>
     10 \<le> Amount_Paid r \<and> Amount_Paid r \<le> 500 \<and> (\<exists>k::int. Amount_Paid r = of_int k / 100) \<and>
     0 \<le> Cashback r \<and> Cashback r \<le> 20 \<and> (\<exists>k::int. Cashback r = of_int k / 100)"

section \<open>insert_data\<close>

text \<open>
  \<^verbatim>\<open>data.to_sql(table_name, conn, if_exists="append", index=False)\<close>: a missing table
  is created with the six columns of the DataFrame; an existing one gets the rows appended,
  and SQLite gives each new row of a table with an \<^verbatim>\<open>INTEGER PRIMARY KEY\<close> the
  largest ID in use plus one (1 in an empty table). IDs are unbounded integers here.
\<close>

fun next_rowid :: "(int \<times> expense) list \<Rightarrow> int" where
  "next_rowid [] = 1"
| "next_rowid (r # rs) = fold max (map fst rs) (fst r) + 1"

fun assign_ids :: "int \<Rightarrow> expense list \<Rightarrow> (int \<times> expense) list" where
  "assign_ids i [] = []"
| "assign_ids i (r # rs) = (i, r) # assign_ids (i + 1) rs"

definition to_sql_append :: "expense list \<Rightarrow> table option \<Rightarrow> table" where
  "to_sql_append data t =
     (case t of
        None \<Rightarrow> NoID data
      | Some (NoID rs) \<Rightarrow> NoID (rs @ data)
      | Some (WithID rs) \<Rightarrow> WithID (rs @ assign_ids (next_rowid rs) data))"

definition warn_missing :: "nat \<Rightarrow> world \<Rightarrow> world" where
  "warn_missing month w =
     w\<lparr>ui := ui w @ [Warning (''File not found: '' @ csv_name month @ ''. Skipping...'')]\<rparr>"

definition insert_month :: "nat \<Rightarrow> world \<Rightarrow> error \<times> world + world" where
  "insert_month month w =
     (case files w (csv_name month) of
        None \<Rightarrow> Inr (warn_missing month w)
      | Some Unparsable \<Rightarrow> Inl (ParserError, w)
      | Some (Csv data) \<Rightarrow>
          Inr (w\<lparr>db := (db w)(table_name month \<mapsto> to_sql_append data (db w (table_name month)))\<rparr>))"

fun insert_loop :: "nat list \<Rightarrow> world \<Rightarrow> error \<times> world + world" where
  "insert_loop [] w = Inr w"
| "insert_loop (month # rest) w =
     (case insert_month month w of
        Inl e \<Rightarrow> Inl e
      | Inr w' \<Rightarrow> insert_loop rest w')"

definition insert_data :: "world \<Rightarrow> error \<times> world + world" where
  "insert_data w =
     (case insert_loop months w of
        Inl e \<Rightarrow> Inl e
      | Inr w' \<Rightarrow> Inr (w'\<lparr>ui := ui w' @ [Success ''Data inserted into all available monthly tables.'']\<rparr>))"

text \<open>The world a call ends in, whether it returns or raises.\<close>

fun final_world :: "error \<times> world + world \<Rightarrow> world" where
  "final_world (Inl (e, w)) = w"
| "final_world (Inr w) = w"

fun raised :: "error \<times> world + world \<Rightarrow> error option" where
  "raised (Inl (e, w)) = Some e"
| "raised (Inr w) = None"

text \<open>The data rows of a table, without the IDs; a missing table has none.\<close>

definition stored_rows :: "database \<Rightarrow> string \<Rightarrow> expense list" where
  "stored_rows d name = (case d name of None \<Rightarrow> [] | Some t \<Rightarrow> map snd (table_rows t))"


section \<open>The union of the twelve tables\<close>

text \<open>
  \<^verbatim>\<open>SELECT * FROM Expenses_01 UNION ALL ... UNION ALL SELECT * FROM Expenses_12\<close>:
  SQLite refuses the statement when a table is missing or when the operands differ in their
  number of columns; otherwise the result is the rows of the tables one after the other.
\<close>

fun lookup_tables :: "database \<Rightarrow> string list \<Rightarrow> table list option" where
  "lookup_tables d [] = Some []"
| "lookup_tables d (name # names) =
     (case d name of
        None \<Rightarrow> None
      | Some t \<Rightarrow> (case lookup_tables d names of None \<Rightarrow> None | Some ts \<Rightarrow> Some (t # ts)))"

fun same_columns :: "table list \<Rightarrow> bool" where
  "same_columns [] = True"
| "same_columns (t # ts) = list_all (\<lambda>u. columns u = columns t) ts"

definition union_all :: "database \<Rightarrow> error + result_row list" where
  "union_all d =
     (case lookup_tables d (map table_name months) of
        None \<Rightarrow> Inl DatabaseError
      | Some ts \<Rightarrow> if same_columns ts then Inr (concat (map table_rows ts)) else Inl DatabaseError)"

section \<open>show_total_spending\<close>

text \<open>
  \<^verbatim>\<open>SELECT Category, SUM(Amount_Paid) AS Total_Spent ... GROUP BY Category ORDER BY Total_Spent DESC\<close>.
  \<^verbatim>\<open>Amount_Paid\<close> is a \<^verbatim>\<open>REAL\<close> column, so \<^verbatim>\<open>SUM\<close> adds doubles,
  each addition rounded, and engines differ in how they add (one addition per row, or a
  compensated sum). The engine's sum of the amounts of a group, in the order of the union,
  is the parameter \<open>engine_sum\<close>. The query names one sort key. SQL leaves the order of
  rows with equal keys to the engine: the engine's choice is the parameter \<open>engine_rank\<close>,
  a ranking of the categories in which the groups reach the final sort, which is stable.
\<close>

definition group_by_category :: "(rat list \<Rightarrow> rat) \<Rightarrow> result_row list \<Rightarrow> (string \<times> rat) list" where
  "group_by_category engine_sum rows =
     map (\<lambda>c. (c, engine_sum (map (\<lambda>r. Amount_Paid (snd r)) (filter (\<lambda>r. Category (snd r) = c) rows))))
       (remdups (map (\<lambda>r. Category (snd r)) rows))"

text \<open>
  One engine: the sum starts at 0.0 and each row is added to it in IEEE double arithmetic.
  An addition rounds the exact sum to 53 significant bits, a tie to the even neighbour
  (overflow and subnormal numbers are left out: the amounts are far from both).
\<close>

definition pow2 :: "int \<Rightarrow> rat" where
  "pow2 e = (if 0 \<le> e then 2 ^ nat e else 1 / 2 ^ nat (- e))"

definition binade :: "rat \<Rightarrow> int" where
  "binade x =
     (let (p, q) = quotient_of \<bar>x\<bar>; e = bitlen p - bitlen q
      in if pow2 e \<le> \<bar>x\<bar> then e else e - 1)"

definition round_to_double :: "rat \<Rightarrow> rat" where
  "round_to_double x =
     (if x = 0 then 0
      else let e = binade x - 52 in of_int (round_half_even (x / pow2 e)) * pow2 e)"

definition double_add :: "rat \<Rightarrow> rat \<Rightarrow> rat" where
  "double_add x y = round_to_double (x + y)"

definition double_sum :: "rat list \<Rightarrow> rat" where
  "double_sum xs = foldl double_add 0 xs"

definition order_by_total_desc :: "(string \<Rightarrow> nat) \<Rightarrow> (string \<times> rat) list \<Rightarrow> (string \<times> rat) list" where
  "order_by_total_desc engine_rank groups =
     sort_key (\<lambda>g. - snd g) (sort_key (\<lambda>g. engine_rank (fst g)) groups)"

definition total_spending_query ::
  "(rat list \<Rightarrow> rat) \<Rightarrow> (string \<Rightarrow> nat) \<Rightarrow> database \<Rightarrow> error + (string \<times> rat) list" where
  "total_spending_query engine_sum engine_rank d =
     (case union_all d of
        Inl e \<Rightarrow> Inl e
      | Inr rows \<Rightarrow> Inr (order_by_total_desc engine_rank (group_by_category engine_sum rows)))"

definition show_total_spending ::
  "(rat list \<Rightarrow> rat) \<Rightarrow> (string \<Rightarrow> nat) \<Rightarrow> world \<Rightarrow> error \<times> world + world" where
  "show_total_spending engine_sum engine_rank w =
     (case total_spending_query engine_sum engine_rank (db w) of
        Inl e \<Rightarrow> Inl (e, w)
      | Inr df \<Rightarrow>
          Inr (w\<lparr>ui := ui w @ [Subheader ''Total Spending by Category'', Totals df, Chart df]\<rparr>))"

section \<open>interactive_dashboard\<close>

text \<open>
  A Python f-string: \<^verbatim>\<open>{name}\<close> is replaced by the value of the variable,
  \<^verbatim>\<open>{{\<close> and \<^verbatim>\<open>}}\<close> are the braces themselves. Only a literal with the
  prefix \<^verbatim>\<open>f\<close> is formatted; in \<^verbatim>\<open>f"""...""" + x + """..."""\<close> that is
  the first literal alone.
\<close>

datatype fstate = Text | Opened | Field string | Closed

fun prepend :: "string \<Rightarrow> error + string \<Rightarrow> error + string" where
  "prepend s (Inl e) = Inl e"
| "prepend s (Inr t) = Inr (s @ t)"

fun py_format :: "(string \<times> string) list \<Rightarrow> fstate \<Rightarrow> string \<Rightarrow> error + string" where
  "py_format env Text [] = Inr []"
| "py_format env Opened [] = Inl SyntaxError"
| "py_format env (Field f) [] = Inl SyntaxError"
| "py_format env Closed [] = Inl SyntaxError"
| "py_format env Text (c # cs) =
     (if c = CHR ''{'' then py_format env Opened cs
      else if c = CHR ''}'' then py_format env Closed cs
      else prepend [c] (py_format env Text cs))"
| "py_format env Opened (c # cs) =
     (if c = CHR ''{'' then prepend ''{'' (py_format env Text cs)
      else if c = CHR ''}'' then Inl SyntaxError
      else py_format env (Field [c]) cs)"
| "py_format env (Field f) (c # cs) =
     (if c = CHR ''}'' then
        (case map_of env f of
           None \<Rightarrow> Inl NameError
         | Some v \<Rightarrow> prepend v (py_format env Text cs))
      else py_format env (Field (f @ [c])) cs)"
| "py_format env Closed (c # cs) =
     (if c = CHR ''}'' then prepend ''}'' (py_format env Text cs) else Inl SyntaxError)"

text \<open>\<^verbatim>\<open>sep.join(items)\<close>\<close>

fun join :: "string \<Rightarrow> string list \<Rightarrow> string" where
  "join sep [] = []"
| "join sep [x] = x"
| "join sep (x # y # ys) = x @ sep @ join sep (y # ys)"

definition union_sql :: string where
  "union_sql = join '' UNION ALL '' (map (\<lambda>month. ''SELECT * FROM '' @ table_name month) months)"

text \<open>The three literals of lines 102-108; the first has the prefix \<^verbatim>\<open>f\<close>.\<close>

definition select_head :: string where
  "select_head = ''\<newline>    SELECT *\<newline>    FROM (\<newline>        ''"

definition where_fragment :: string where
  "where_fragment =
     ''\<newline>    ) AS Combined\<newline>    WHERE Date BETWEEN '{start_date}' AND '{end_date}'\<newline>    ''"

definition quote :: "string \<Rightarrow> string" where
  "quote s = [CHR 0x27] @ s @ [CHR 0x27]"

definition dashboard_sql :: "string list \<Rightarrow> string list \<Rightarrow> date \<Rightarrow> date \<Rightarrow> error + string" where
  "dashboard_sql category_filter payment_mode_filter start_date end_date =
     (case py_format [(''start_date'', str_date start_date), (''end_date'', str_date end_date)]
             Text select_head of
        Inl e \<Rightarrow> Inl e
      | Inr head \<Rightarrow>
          Inr (head @ union_sql @ where_fragment @
               (if category_filter \<noteq> []
                then '' AND Category IN ('' @ join '', '' (map quote category_filter) @ '')''
                else []) @
               (if payment_mode_filter \<noteq> []
                then '' AND Payment_Mode IN ('' @ join '', '' (map quote payment_mode_filter) @ '')''
                else [])))"

text \<open>
  The string literals of an SQL text, in order. The first two of the dashboard's statement
  are the bounds of \<^verbatim>\<open>BETWEEN\<close>. SQLite compares text byte by byte, and
  \<^verbatim>\<open>x BETWEEN a AND b\<close> is \<^verbatim>\<open>a <= x AND x <= b\<close>. The options of the two
  multiselects contain no quote, so the literals of the \<^verbatim>\<open>IN\<close> lists are the selected
  options.
\<close>

fun sql_literals :: "string option \<Rightarrow> string \<Rightarrow> string list" where
  "sql_literals None [] = []"
| "sql_literals (Some acc) [] = []"
| "sql_literals None (c # cs) =
     (if c = CHR 0x27 then sql_literals (Some []) cs else sql_literals None cs)"
| "sql_literals (Some acc) (c # cs) =
     (if c = CHR 0x27 then acc # sql_literals None cs else sql_literals (Some (acc @ [c])) cs)"

definition where_rows :: "string \<Rightarrow> string \<Rightarrow> string list \<Rightarrow> string list \<Rightarrow> result_row list \<Rightarrow> result_row list" where
  "where_rows lo hi category_filter payment_mode_filter rows =
     filter (\<lambda>r. lo \<le> Date (snd r) \<and> Date (snd r) \<le> hi \<and>
                 (category_filter = [] \<or> Category (snd r) \<in> set category_filter) \<and>
                 (payment_mode_filter = [] \<or> Payment_Mode (snd r) \<in> set payment_mode_filter)) rows"

definition read_sql_query :: "string \<Rightarrow> string list \<Rightarrow> string list \<Rightarrow> database \<Rightarrow> error + result_row list" where
  "read_sql_query query category_filter payment_mode_filter d =
     (case sql_literals None query of
        lo # hi # others \<Rightarrow>
          (case union_all d of
             Inl e \<Rightarrow> Inl e
           | Inr rows \<Rightarrow> Inr (where_rows lo hi category_filter payment_mode_filter rows))
      | _ \<Rightarrow> Inl DatabaseError)"

definition dashboard_query :: "string list \<Rightarrow> string list \<Rightarrow> date \<Rightarrow> date \<Rightarrow> database \<Rightarrow> error + result_row list" where
  "dashboard_query category_filter payment_mode_filter start_date end_date d =
     (case dashboard_sql category_filter payment_mode_filter start_date end_date of
        Inl e \<Rightarrow> Inl e
      | Inr query \<Rightarrow> read_sql_query query category_filter payment_mode_filter d)"

definition interactive_dashboard :: "string list \<Rightarrow> string list \<Rightarrow> date \<Rightarrow> date \<Rightarrow> world \<Rightarrow> error \<times> world + world" where
  "interactive_dashboard category_filter payment_mode_filter start_date end_date w =
     (let w1 = w\<lparr>ui := ui w @ [Widget ''Select Categories'', Widget ''Select Payment Modes'',
                                 Widget ''Start Date'', Widget ''End Date'']\<rparr>
      in case dashboard_query category_filter payment_mode_filter start_date end_date (db w1) of
           Inl e \<Rightarrow> Inl (e, w1)
         | Inr df \<Rightarrow>
             Inr (w1\<lparr>ui := ui w1 @ [Subheader ''Filtered Expenses'', Dataframe df,
                                     Download ''filtered_expenses.csv'' df]\<rparr>))"

section \<open>The module's top level\<close>

text \<open>What the user and the environment supply to one run of the script.\<close>

record ui_input =
  choice :: string
  button :: bool
  selected_categories :: "string list"
  selected_payment_modes :: "string list"
  start_date_input :: date
  end_date_input :: date
  random :: random_source
  engine_sum :: "rat list \<Rightarrow> rat"
  engine_rank :: "string \<Rightarrow> nat"

definition say :: "ui_event list \<Rightarrow> world \<Rightarrow> world" where
  "say events w = w\<lparr>ui := ui w @ events\<rparr>"

definition main_block :: "ui_input \<Rightarrow> world \<Rightarrow> error \<times> world + world" where
  "main_block inp w =
     (let w1 = say [Title ''Expense Tracker Application'', Widget ''Menu''] w
      in if choice inp = ''Generate Sample Data'' then
           (let w2 = say [Subheader ''Generate Sample Data for Testing'', Widget ''Generate Data''] w1
            in if button inp then generate_sample_data (random inp) w2 else Inr w2)
         else if choice inp = ''Create Tables'' then
           (let w2 = say [Subheader ''Create Tables for Monthly Expenses'', Widget ''Create Tables''] w1
            in if button inp then Inr (create_tables w2) else Inr w2)
         else if choice inp = ''Insert Data'' then
           (let w2 = say [Subheader ''Insert Monthly Expense Data'', Widget ''Insert Data''] w1
            in if button inp then insert_data w2 else Inr w2)
         else if choice inp = ''View Spending'' then
           show_total_spending (engine_sum inp) (engine_rank inp)
             (say [Subheader ''View Total Spending by Category''] w1)
         else if choice inp = ''Interactive Dashboard'' then
           interactive_dashboard (selected_categories inp) (selected_payment_modes inp)
             (start_date_input inp) (end_date_input inp)
             (say [Subheader ''Explore and Analyze Expenses''] w1)
         else Inr w1)"

text \<open>
  Lines 10-11 make the directory; line 131 compares two string literals. The module's
  \<^verbatim>\<open>__name__\<close> is the first argument.
\<close>

definition run_module :: "string \<Rightarrow> ui_input \<Rightarrow> world \<Rightarrow> error \<times> world + world" where
  "run_module name inp w =
     (let w0 = w\<lparr>data_dir := True\<rparr>
      in if ''__name_ '' = ''__main__'' then main_block inp w0 else Inr w0)"

section \<open>Example states\<close>

definition empty_world :: world where
  "empty_world = \<lparr>data_dir = True, files = Map.empty, db = Map.empty, ui = []\<rparr>"

definition jan1 :: date where
  "jan1 = \<lparr>year = 2024, month_of = 1, day = 1\<rparr>"

definition dec31 :: date where
  "dec31 = \<lparr>year = 2024, month_of = 12, day = 31\<rparr>"

definition lunch :: expense where
  "lunch = \<lparr>Date = ''2024-01-15'', Category = ''Food'', Payment_Mode = ''Cash'',
     Description = ''Lunch.'', Amount_Paid = 12, Cashback = 0\<rparr>"

definition january_world :: world where
  "january_world =
     final_world (insert_data (create_tables (empty_world\<lparr>files := [csv_name 1 \<mapsto> Csv [lunch]]\<rparr>)))"

definition jan15 :: date where
  "jan15 = \<lparr>year = 2024, month_of = 1, day = 15\<rparr>"

definition example_draw :: draw where
  "example_draw = \<lparr>date_this_year = jan15, category_draw = 0,
     payment_mode_draw = 1, sentence = ''Lunch.'', amount_draw = 0, cashback_draw = 0\<rparr>"

definition example_input :: ui_input where
  "example_input = \<lparr>choice = ''Create Tables'', button = True, selected_categories = [],
     selected_payment_modes = [], start_date_input = jan1,
     end_date_input = dec31,
     random = (\<lambda>month i. example_draw), engine_sum = double_sum, engine_rank = (\<lambda>c. 0)\<rparr>"

definition broken_january_world :: world where
  "broken_january_world =
     create_tables (empty_world\<lparr>files := [csv_name 1 \<mapsto> Unparsable, csv_name 2 \<mapsto> Csv [lunch]]\<rparr>)"

definition february_world :: world where
  "february_world = create_tables (empty_world\<lparr>files := [csv_name 2 \<mapsto> Csv [lunch]]\<rparr>)"

definition bus :: expense where
  "bus = \<lparr>Date = ''2024-01-16'', Category = ''Transportation'', Payment_Mode = ''Online'',
     Description = ''Bus.'', Amount_Paid = 12, Cashback = 1\<rparr>"


definition tied_world :: world where
  "tied_world =
     final_world (insert_data (create_tables (empty_world\<lparr>files := [csv_name 1 \<mapsto> Csv [lunch, bus]]\<rparr>)))"





definition food_first :: "string \<Rightarrow> nat" where
  "food_first c = (if c = ''Food'' then 0 else 1)"

definition food_last :: "string \<Rightarrow> nat" where
  "food_last c = (if c = ''Food'' then 1 else 0)"

section \<open>Properties of the names\<close>

lemma months_eq: "months = [1, 2, 3, 4, 5, 6, 7, 8, 9, 10, 11, 12]"
  unfolding months_def by code_simp

lemma set_months: "set months = {1..12}"
  unfolding months_def by auto

lemma table_names:
  "map table_name months =
     [''Expenses_01'', ''Expenses_02'', ''Expenses_03'', ''Expenses_04'', ''Expenses_05'',
      ''Expenses_06'', ''Expenses_07'', ''Expenses_08'', ''Expenses_09'', ''Expenses_10'',
      ''Expenses_11'', ''Expenses_12'']"
  unfolding months_eq by code_simp

lemma csv_names:
  "map csv_name months =
     [''expenses_1.csv'', ''expenses_2.csv'', ''expenses_3.csv'', ''expenses_4.csv'',
      ''expenses_5.csv'', ''expenses_6.csv'', ''expenses_7.csv'', ''expenses_8.csv'',
      ''expenses_9.csv'', ''expenses_10.csv'', ''expenses_11.csv'', ''expenses_12.csv'']"
  unfolding months_eq by code_simp

lemma distinct_table_names: "distinct (map table_name months)"
  unfolding table_names by simp

lemma distinct_csv_names: "distinct (map csv_name months)"
  unfolding csv_names by simp

lemma table_name_inj:
  assumes "m \<in> set months" "k \<in> set months" "table_name m = table_name k"
  shows "m = k"
  using assms distinct_table_names by (meson distinct_map inj_onD)

lemma csv_name_inj:
  assumes "m \<in> set months" "k \<in> set months" "csv_name m = csv_name k"
  shows "m = k"
  using assms distinct_csv_names by (meson distinct_map inj_onD)

section \<open>Properties of create_tables\<close>

lemma create_loop_lookup:
  "create_loop ms d name =
     (if name \<in> table_name ` set ms \<and> d name = None then Some (WithID []) else d name)"
  by (induction ms arbitrary: d)
     (auto simp: create_table_if_not_exists_def split: option.splits)

lemma create_loop_noop:
  assumes "\<forall>m \<in> set ms. table_name m \<in> dom d"
  shows "create_loop ms d = d"
proof
  fix name
  show "create_loop ms d name = d name"
    using assms by (auto simp: create_loop_lookup)
qed

lemma table_name_digits_all:
  "list_all (\<lambda>m. table_name m = ''Expenses_'' @ [digit (m div 10), digit (m mod 10)]) months"
  unfolding months_eq by code_simp

lemma table_name_digits:
  "m \<in> {1..12} \<Longrightarrow> table_name m = ''Expenses_'' @ [digit (m div 10), digit (m mod 10)]"
  using table_name_digits_all by (simp add: list_all_iff set_months)

lemma db_create_tables: "db (create_tables w) = create_loop months (db w)"
  by (simp add: create_tables_def)

lemma files_create_tables: "files (create_tables w) = files w"
  by (simp add: create_tables_def)

text \<open>
  Claim C7. For every month \<open>m\<close> in 1..12, after \<^verbatim>\<open>create_tables\<close> the table of
  \<open>m\<close> exists, and it is empty if it did not exist before. Tables that exist keep their
  rows, no other table appears and no file is touched. On a state where the twelve tables
  exist the database is unchanged, so running \<^verbatim>\<open>create_tables\<close> again changes
  nothing. The function has no failing branch.
\<close>

theorem create_tables_idempotent:
  "(\<forall>m \<in> {1..12}.
      table_name m \<in> dom (db (create_tables w)) \<and>
      (db w (table_name m) = None \<longrightarrow> db (create_tables w) (table_name m) = Some (WithID []))) \<and>
   (\<forall>name t. db w name = Some t \<longrightarrow> db (create_tables w) name = Some t) \<and>
   dom (db (create_tables w)) = dom (db w) \<union> table_name ` {1..12} \<and>
   files (create_tables w) = files w \<and>
   ((\<forall>m \<in> {1..12}. table_name m \<in> dom (db w)) \<longrightarrow> db (create_tables w) = db w) \<and>
   db (create_tables (create_tables w)) = db (create_tables w)"
proof -
  have look: "\<And>w name. db (create_tables w) name =
      (if name \<in> table_name ` {1..12} \<and> db w name = None then Some (WithID []) else db w name)"
    by (simp add: db_create_tables create_loop_lookup set_months)
  have a: "\<forall>m \<in> {1..12}.
      table_name m \<in> dom (db (create_tables w)) \<and>
      (db w (table_name m) = None \<longrightarrow> db (create_tables w) (table_name m) = Some (WithID []))"
    by (auto simp: look dom_def)
  have b: "\<forall>name t. db w name = Some t \<longrightarrow> db (create_tables w) name = Some t"
    by (simp add: look)
  have c: "dom (db (create_tables w)) = dom (db w) \<union> table_name ` {1..12}"
    by (auto simp: look dom_def split: if_splits)
  have d: "(\<forall>m \<in> {1..12}. table_name m \<in> dom (db w)) \<longrightarrow> db (create_tables w) = db w"
    by (auto simp: db_create_tables set_months intro!: create_loop_noop)
  have e: "db (create_tables (create_tables w)) = db (create_tables w)"
    by (rule ext) (auto simp: look)
  from a b c d e show ?thesis by (simp add: files_create_tables)
qed

theorem create_tables_idempotent_witness:
  "(3::nat) \<in> {1..12} \<and> db empty_world (table_name 3) = None \<and>
   db (create_tables empty_world) (table_name 3) = Some (WithID []) \<and>
   table_name 12 \<in> dom (db (create_tables empty_world)) \<and>
   db (create_tables (create_tables empty_world)) = db (create_tables empty_world)"
proof -
  have m: "(3::nat) \<in> {1..12}" and k: "(12::nat) \<in> {1..12}" by simp_all
  have e: "db empty_world (table_name 3) = None" by (simp add: empty_world_def)
  note t = create_tables_idempotent [of empty_world]
  from t m e have "db (create_tables empty_world) (table_name 3) = Some (WithID [])" by blast
  moreover from t k have "table_name 12 \<in> dom (db (create_tables empty_world))" by blast
  moreover from t have "db (create_tables (create_tables empty_world)) = db (create_tables empty_world)"
    by blast
  ultimately show ?thesis using m e by blast
qed

text \<open>
  Claim C9, as stated: the table of month 3 is named \<^verbatim>\<open>03\<close>. It is named
  \<^verbatim>\<open>Expenses_03\<close>, and no table \<^verbatim>\<open>03\<close> is created.
\<close>

theorem table_name_is_month_number_counterexample:
  "table_name 3 = ''Expenses_03'' \<and> table_name 3 \<noteq> ''03'' \<and>
   db (create_tables empty_world) ''03'' = None"
proof -
  have n: "table_name 3 = ''Expenses_03''" by code_simp
  have "''03'' \<notin> table_name ` set months"
    unfolding image_set table_names by simp
  then have "db (create_tables empty_world) ''03'' = None"
    by (simp add: db_create_tables create_loop_lookup empty_world_def)
  with n show ?thesis by simp
qed

text \<open>
  Claim C9, amended. For every month \<open>m\<close> in 1..12, \<^verbatim>\<open>create_tables\<close> creates a
  table whose name is \<^verbatim>\<open>Expenses_\<close> followed by the two decimal digits of the month
  number, padded with a zero (month 3 gives \<^verbatim>\<open>Expenses_03\<close>).
\<close>

theorem table_name_prefixed_month_number:
  "\<forall>m \<in> {1..12}.
     table_name m = ''Expenses_'' @ [digit (m div 10), digit (m mod 10)] \<and>
     table_name m \<in> dom (db (create_tables w)) \<and>
     (db w (table_name m) = None \<longrightarrow> db (create_tables w) (table_name m) = Some (WithID []))"
  by (auto simp: db_create_tables create_loop_lookup set_months table_name_digits dom_def)

theorem table_name_prefixed_month_number_witness:
  "(3::nat) \<in> {1..12} \<and> table_name 3 = ''Expenses_03'' \<and>
   db empty_world (table_name 3) = None \<and>
   db (create_tables empty_world) ''Expenses_03'' = Some (WithID [])"
proof -
  have m: "(3::nat) \<in> {1..12}" by simp
  have e: "db empty_world (table_name 3) = None" by (simp add: empty_world_def)
  have d: "[digit (3 div 10), digit (3 mod 10)] = ''03''" by (simp add: digit_def)
  note t = table_name_prefixed_month_number [of empty_world]
  from t m have n: "table_name 3 = ''Expenses_'' @ [digit (3 div 10), digit (3 mod 10)]" by blast
  from t m e have c: "db (create_tables empty_world) (table_name 3) = Some (WithID [])" by blast
  from n d have n': "table_name 3 = ''Expenses_03''" by simp
  from m e c n' show ?thesis by simp
qed

section \<open>Properties of the dashboard\<close>

lemma union_january: "union_all (db january_world) = Inr [(Some 1, lunch)]"
  by code_simp

lemma py_format_select_head: "py_format env Text select_head = Inr select_head"
  by (simp add: select_head_def)

lemma sql_literals_skip:
  "CHR 0x27 \<notin> set xs \<Longrightarrow> sql_literals None (xs @ ys) = sql_literals None ys"
  by (induction xs) auto

lemma no_quote_head: "CHR 0x27 \<notin> set (select_head @ union_sql)"
  by code_simp

lemma sql_literals_where:
  "sql_literals None (where_fragment @ rest) = ''{start_date}'' # ''{end_date}'' # sql_literals None rest"
  by (simp add: where_fragment_def)

lemma dashboard_sql_eq:
  "dashboard_sql cf pf s e =
     Inr (select_head @ union_sql @ where_fragment @
          (if cf \<noteq> [] then '' AND Category IN ('' @ join '', '' (map quote cf) @ '')'' else []) @
          (if pf \<noteq> [] then '' AND Payment_Mode IN ('' @ join '', '' (map quote pf) @ '')'' else []))"
  by (simp add: dashboard_sql_def py_format_select_head)

lemma between_placeholders_empty:
  "\<not> (''{start_date}'' \<le> (x :: string) \<and> x \<le> ''{end_date}'')"
proof
  assume "''{start_date}'' \<le> x \<and> x \<le> ''{end_date}''"
  then have "(''{start_date}'' :: string) \<le> ''{end_date}''" by (meson order_trans)
  then show False by simp
qed

lemma where_rows_placeholders: "where_rows ''{start_date}'' ''{end_date}'' cf pf rows = []"
  unfolding where_rows_def filter_empty_conv using between_placeholders_empty by blast

lemma read_dashboard_sql:
  "read_sql_query (select_head @ union_sql @ where_fragment @ rest) cf pf d =
     (case union_all d of Inl e \<Rightarrow> Inl e | Inr rows \<Rightarrow> Inr [])"
proof -
  have "sql_literals None ((select_head @ union_sql) @ where_fragment @ rest) =
      ''{start_date}'' # ''{end_date}'' # sql_literals None rest"
    using sql_literals_skip [OF no_quote_head] sql_literals_where by simp
  then show ?thesis
    by (simp add: read_sql_query_def where_rows_placeholders split: sum.splits)
qed

lemma dashboard_query_eq:
  "dashboard_query cf pf s e d = (case union_all d of Inl e \<Rightarrow> Inl e | Inr rows \<Rightarrow> Inr [])"
  unfolding dashboard_query_def dashboard_sql_eq by (simp add: read_dashboard_sql)

text \<open>
  Claim C3. The guard on line 131 compares the literals \<^verbatim>\<open>"__name_ "\<close> and
  \<^verbatim>\<open>"__main__"\<close>, which differ. Whatever the module's name, the input and the
  state, the block under the guard does not run: the module only makes the directory, and
  the user interface, the database and the files stay as they were.
\<close>

theorem guard_is_false:
  "(''__name_ '' = ''__main__'') = False \<and>
   run_module name inp w = Inr (w\<lparr>data_dir := True\<rparr>) \<and>
   ui (final_world (run_module name inp w)) = ui w \<and>
   db (final_world (run_module name inp w)) = db w \<and>
   files (final_world (run_module name inp w)) = files w"
  by (simp add: run_module_def)


theorem guard_is_false_witness:
  "run_module ''__main__'' example_input empty_world = Inr (empty_world\<lparr>data_dir := True\<rparr>) \<and>
   ui (final_world (run_module ''__main__'' example_input empty_world)) = []"
  using guard_is_false [of "''__main__''" example_input empty_world]
  by (simp add: empty_world_def)

text \<open>
  Claim C2. Two runs of the dashboard that differ in the two dates only build the same SQL
  text and return the same rows, and show the same on the page. The text is the first
  literal, the union and the second literal, which holds the characters
  \<^verbatim>\<open>'{start_date}'\<close> and \<^verbatim>\<open>'{end_date}'\<close> as they are, and then the
  two \<^verbatim>\<open>IN\<close> conditions.
\<close>

theorem dashboard_ignores_dates:
  "dashboard_sql cf pf s1 e1 = dashboard_sql cf pf s2 e2 \<and>
   dashboard_query cf pf s1 e1 d = dashboard_query cf pf s2 e2 d \<and>
   interactive_dashboard cf pf s1 e1 w = interactive_dashboard cf pf s2 e2 w \<and>
   (\<exists>rest. dashboard_sql cf pf s1 e1 = Inr (select_head @ union_sql @ where_fragment @ rest)) \<and>
   (\<exists>a b. where_fragment =
      a @ ''WHERE Date BETWEEN '{start_date}' AND '{end_date}'\<newline>'' @ b) \<and>
   take 2 (sql_literals None where_fragment) = [''{start_date}'', ''{end_date}'']"
proof -
  have q: "dashboard_sql cf pf s1 e1 = dashboard_sql cf pf s2 e2"
    by (simp add: dashboard_sql_eq)
  have r: "dashboard_query cf pf s1 e1 d = dashboard_query cf pf s2 e2 d" for d
    by (simp add: dashboard_query_eq)
  have u: "interactive_dashboard cf pf s1 e1 w = interactive_dashboard cf pf s2 e2 w"
    by (simp add: interactive_dashboard_def r)
  have t: "\<exists>rest. dashboard_sql cf pf s1 e1 = Inr (select_head @ union_sql @ where_fragment @ rest)"
    by (simp add: dashboard_sql_eq)
  have "where_fragment = ''\<newline>    ) AS Combined\<newline>    '' @
      ''WHERE Date BETWEEN '{start_date}' AND '{end_date}'\<newline>'' @ ''    ''"
    by (simp add: where_fragment_def)
  then have f: "\<exists>a b. where_fragment =
      a @ ''WHERE Date BETWEEN '{start_date}' AND '{end_date}'\<newline>'' @ b"
    by blast
  have l: "take 2 (sql_literals None where_fragment) = [''{start_date}'', ''{end_date}'']"
    using sql_literals_where [of "[]"] by simp
  from q r u t f l show ?thesis by blast
qed

theorem dashboard_ignores_dates_witness:
  "dashboard_sql [''Food''] [] jan1 dec31 = dashboard_sql [''Food''] [] dec31 jan1 \<and>
   dashboard_query [''Food''] [] jan1 dec31 (db january_world) =
     dashboard_query [''Food''] [] dec31 jan1 (db january_world)"
  using dashboard_ignores_dates [of "[''Food'']" "[]" jan1 dec31 dec31 jan1 "db january_world"]
  by blast

text \<open>
  Claim C1, at a failing input. The database has the twelve tables and one row, dated
  2024-01-15, in the table of January. With no category and no payment mode selected and
  the range from 2024-01-01 to 2024-12-31, which covers the row, the dashboard's query
  returns no row, where the union of the tables has one.
\<close>

theorem dashboard_returns_nothing:
  "union_all (db january_world) = Inr [(Some 1, lunch)] \<and>
   str_date jan1 = ''2024-01-01'' \<and> str_date dec31 = ''2024-12-31'' \<and>
   str_date jan1 \<le> Date lunch \<and> Date lunch \<le> str_date dec31 \<and>
   dashboard_query [] [] jan1 dec31 (db january_world) = Inr []"
proof -
  have a: "str_date jan1 = ''2024-01-01''" and b: "str_date dec31 = ''2024-12-31''"
    by code_simp+
  have c: "Date lunch = ''2024-01-15''" by (simp add: lunch_def)
  have "dashboard_query [] [] jan1 dec31 (db january_world) = Inr []"
    by (simp add: dashboard_query_eq union_january)
  then show ?thesis unfolding a b c using union_january by simp
qed



section \<open>Properties of insert_data\<close>

lemma row_count_stored: "row_count d name = length (stored_rows d name)"
  by (simp add: row_count_def stored_rows_def split: option.splits)

lemma map_snd_assign_ids: "map snd (assign_ids i data) = data"
  by (induction data arbitrary: i) auto

lemma map_snd_table_rows:
  "map snd (table_rows t) = (case t of WithID rs \<Rightarrow> map snd rs | NoID rs \<Rightarrow> rs)"
  by (cases t) (simp_all add: comp_def split_beta)

lemma stored_rows_to_sql:
  "stored_rows (d(name \<mapsto> to_sql_append data (d name))) name = stored_rows d name @ data"
  by (simp add: stored_rows_def to_sql_append_def map_snd_table_rows map_snd_assign_ids
      split: option.splits table.splits)

lemma insert_month_files: "files (final_world (insert_month m w)) = files w"
  by (auto simp: insert_month_def warn_missing_def split: option.splits csv_file.splits)

lemma insert_month_other:
  "name \<noteq> table_name m \<Longrightarrow> db (final_world (insert_month m w)) name = db w name"
  by (auto simp: insert_month_def warn_missing_def split: option.splits csv_file.splits)

lemma insert_month_Inr_final: "insert_month m w = Inr w' \<Longrightarrow> final_world (insert_month m w) = w'"
  by simp

lemma insert_loop_files: "files (final_world (insert_loop ms w)) = files w"
proof (induction ms arbitrary: w)
  case Nil
  show ?case by simp
next
  case (Cons m ms)
  show ?case
  proof (cases "insert_month m w")
    case (Inl e)
    then show ?thesis using insert_month_files [of m w] by (cases e) simp
  next
    case (Inr w')
    then show ?thesis using insert_month_files [of m w] Cons.IH [of w'] by simp
  qed
qed

lemma insert_loop_other:
  "name \<notin> table_name ` set ms \<Longrightarrow> db (final_world (insert_loop ms w)) name = db w name"
proof (induction ms arbitrary: w)
  case Nil
  show ?case by simp
next
  case (Cons m ms)
  then have ne: "name \<noteq> table_name m" and rest: "name \<notin> table_name ` set ms" by auto
  show ?case
  proof (cases "insert_month m w")
    case (Inl e)
    then show ?thesis using insert_month_other [OF ne, of w] by (cases e) simp
  next
    case (Inr w')
    then show ?thesis using insert_month_other [OF ne, of w] Cons.IH [OF rest, of w'] by simp
  qed
qed

lemma insert_loop_append:
  "insert_loop (xs @ ys) w =
     (case insert_loop xs w of Inl e \<Rightarrow> Inl e | Inr w' \<Rightarrow> insert_loop ys w')"
  by (induction xs arbitrary: w) (auto split: sum.splits)

lemma insert_loop_returns:
  "\<forall>k \<in> set ms. files w (csv_name k) \<noteq> Some Unparsable \<Longrightarrow> \<exists>w'. insert_loop ms w = Inr w'"
proof (induction ms arbitrary: w)
  case Nil
  show ?case by simp
next
  case (Cons m ms)
  from Cons.prems have "files w (csv_name m) \<noteq> Some Unparsable" by simp
  then have "\<exists>w1. insert_month m w = Inr w1"
    by (simp add: insert_month_def split: option.splits csv_file.splits)
  then obtain w1 where w1: "insert_month m w = Inr w1" ..
  then have "files w1 = files w" using insert_month_files [of m w] by simp
  with Cons.prems have "\<forall>k \<in> set ms. files w1 (csv_name k) \<noteq> Some Unparsable" by simp
  from Cons.IH [OF this] w1 show ?case by simp
qed

lemma insert_loop_ui: "\<exists>events. ui (final_world (insert_loop ms w)) = ui w @ events"
proof (induction ms arbitrary: w)
  case Nil
  show ?case by simp
next
  case (Cons m ms)
  show ?case
  proof (cases "insert_month m w")
    case (Inl e)
    then show ?thesis
      by (cases e) (auto simp: insert_month_def split: option.splits csv_file.splits)
  next
    case (Inr w')
    then have "\<exists>evs. ui w' = ui w @ evs"
      by (auto simp: insert_month_def warn_missing_def split: option.splits csv_file.splits)
    then obtain evs where "ui w' = ui w @ evs" ..
    moreover from Cons.IH [of w'] obtain evs' where
      "ui (final_world (insert_loop ms w')) = ui w' @ evs'" ..
    ultimately show ?thesis using Inr by simp
  qed
qed

lemma months_split:
  assumes "m \<in> {1..12}"
  shows "months = [1..<m] @ m # [Suc m..<13]"
proof -
  from assms have "1 \<le> m" "m < 13" by auto
  then have "[1..<m + (13 - m)] = [1..<m] @ [m..<m + (13 - m)]"
    by (intro upt_add_eq_append) simp
  then have "[1..<13] = [1..<m] @ [m..<13]"
    using \<open>m < 13\<close> by simp
  also have "[m..<13] = m # [Suc m..<13]"
    using \<open>m < 13\<close> by (rule upt_conv_Cons)
  finally show ?thesis by (simp add: months_def)
qed

lemma table_name_notin:
  assumes "m \<in> {1..12}" "set ks \<subseteq> {1..12}" "m \<notin> set ks"
  shows "table_name m \<notin> table_name ` set ks"
  using assms table_name_inj [of m] set_months by blast

lemma final_insert_data:
  "db (final_world (insert_data w)) = db (final_world (insert_loop months w)) \<and>
   files (final_world (insert_data w)) = files (final_world (insert_loop months w))"
  by (cases "insert_loop months w") (auto simp: insert_data_def)

text \<open>The loop up to a month whose earlier files are absent or parse.\<close>

lemma insert_loop_before:
  assumes "m \<in> {1..12}" "\<forall>k \<in> {1..<m}. files w (csv_name k) \<noteq> Some Unparsable"
  obtains w1 where "insert_loop [1..<m] w = Inr w1" "files w1 = files w"
    "db w1 (table_name m) = db w (table_name m)" "\<exists>events. ui w1 = ui w @ events"
proof -
  from assms(2) have "\<forall>k \<in> set [1..<m]. files w (csv_name k) \<noteq> Some Unparsable" by simp
  from insert_loop_returns [OF this] obtain w1 where w1: "insert_loop [1..<m] w = Inr w1" ..
  have f: "files w1 = files w" using insert_loop_files [of "[1..<m]" w] w1 by simp
  have "table_name m \<notin> table_name ` set [1..<m]"
    using assms(1) by (intro table_name_notin) auto
  from insert_loop_other [OF this, of w] w1
  have d: "db w1 (table_name m) = db w (table_name m)" by simp
  have u: "\<exists>events. ui w1 = ui w @ events" using insert_loop_ui [of "[1..<m]" w] w1 by simp
  from w1 f d u show ?thesis by (rule that)
qed

lemma insert_loop_after:
  assumes "m \<in> {1..12}"
  shows "db (final_world (insert_loop [Suc m..<13] w)) (table_name m) = db w (table_name m)"
proof -
  have "table_name m \<notin> table_name ` set [Suc m..<13]"
    using assms by (intro table_name_notin) auto
  from insert_loop_other [OF this] show ?thesis .
qed

lemma insert_loop_present:
  assumes m: "m \<in> {1..12}" and csv: "files w (csv_name m) = Some (Csv data)"
    and before: "\<forall>k \<in> {1..<m}. files w (csv_name k) \<noteq> Some Unparsable"
  shows "stored_rows (db (final_world (insert_loop months w))) (table_name m) =
           stored_rows (db w) (table_name m) @ data"
proof -
  from insert_loop_before [OF m before] obtain w1 where
    w1: "insert_loop [1..<m] w = Inr w1" and f1: "files w1 = files w" and
    d1: "db w1 (table_name m) = db w (table_name m)" by blast
  define w2 where
    "w2 = w1\<lparr>db := (db w1)(table_name m \<mapsto> to_sql_append data (db w1 (table_name m)))\<rparr>"
  have step: "insert_month m w1 = Inr w2"
    using csv f1 by (simp add: insert_month_def w2_def)
  have loop: "insert_loop months w = insert_loop [Suc m..<13] w2"
    unfolding months_split [OF m] insert_loop_append w1 using step by simp
  have "stored_rows (db w2) (table_name m) = stored_rows (db w1) (table_name m) @ data"
    unfolding w2_def using stored_rows_to_sql [where d = "db w1" and name = "table_name m" and data = data] by simp
  also have "stored_rows (db w1) (table_name m) = stored_rows (db w) (table_name m)"
    using d1 by (simp add: stored_rows_def)
  finally have "stored_rows (db w2) (table_name m) = stored_rows (db w) (table_name m) @ data" .
  moreover have "stored_rows (db (final_world (insert_loop [Suc m..<13] w2))) (table_name m) =
      stored_rows (db w2) (table_name m)"
    using insert_loop_after [OF m, of w2] by (simp add: stored_rows_def)
  ultimately show ?thesis using loop by simp
qed




text \<open>
  Claim C6, amended. For a month in 1..12 whose file exists and parses, when no file of an
  earlier month is unparsable, one run of \<^verbatim>\<open>insert_data\<close> appends the rows of the
  file to the month's table, so the row count grows by the number of rows of the file. The
  files are untouched, and a second run appends the same rows again: the count has then
  grown by twice that number.
\<close>

theorem insert_data_appends_rows:
  assumes "m \<in> {1..12}" and "files w (csv_name m) = Some (Csv data)"
    and "\<forall>k \<in> {1..<m}. files w (csv_name k) \<noteq> Some Unparsable"
  shows "row_count (db (final_world (insert_data w))) (table_name m) =
      row_count (db w) (table_name m) + length data \<and>
    stored_rows (db (final_world (insert_data w))) (table_name m) =
      stored_rows (db w) (table_name m) @ data \<and>
    files (final_world (insert_data w)) = files w \<and>
    row_count (db (final_world (insert_data (final_world (insert_data w))))) (table_name m) =
      row_count (db w) (table_name m) + 2 * length data \<and>
    stored_rows (db (final_world (insert_data (final_world (insert_data w))))) (table_name m) =
      stored_rows (db w) (table_name m) @ data @ data"
proof -
  define w1 where "w1 = final_world (insert_data w)"
  have run: "stored_rows (db (final_world (insert_data v))) (table_name m) =
      stored_rows (db v) (table_name m) @ data"
    if "files v = files w" for v
    using insert_loop_present [of m v data] assms that final_insert_data [of v]
    by (simp add: stored_rows_def)
  have f1: "files w1 = files w"
    unfolding w1_def using final_insert_data [of w] insert_loop_files [of months w] by simp
  have r1: "stored_rows (db w1) (table_name m) = stored_rows (db w) (table_name m) @ data"
    unfolding w1_def using run [of w] by simp
  have r2: "stored_rows (db (final_world (insert_data w1))) (table_name m) =
      stored_rows (db w) (table_name m) @ data @ data"
    using run [OF f1] r1 by simp
  from f1 r1 r2 show ?thesis unfolding w1_def [symmetric] by (simp add: row_count_stored)
qed

lemma february_files:
  "files february_world (csv_name 1) = None"
  "files february_world (csv_name 2) = Some (Csv [lunch])"
  by code_simp+


theorem insert_data_appends_rows_witness:
  "(2::nat) \<in> {1..12} \<and> files february_world (csv_name 2) = Some (Csv [lunch]) \<and>
   row_count (db february_world) (table_name 2) = 0 \<and>
   row_count (db (final_world (insert_data february_world))) (table_name 2) = 1 \<and>
   row_count (db (final_world (insert_data (final_world (insert_data february_world)))))
     (table_name 2) = 2"
proof -
  have k: "(2::nat) \<in> {1..12}" by simp
  have b: "\<forall>j \<in> {1..<2::nat}. files february_world (csv_name j) \<noteq> Some Unparsable"
  proof
    fix j :: nat
    assume "j \<in> {1..<2}"
    then have "j = 1" by auto
    then show "files february_world (csv_name j) \<noteq> Some Unparsable"
      using february_files(1) by simp
  qed
  have z: "row_count (db february_world) (table_name 2) = 0" by code_simp
  from insert_data_appends_rows [OF k february_files(2) b] z k february_files(2)
  show ?thesis by simp
qed

text \<open>
  Claim C6, as stated, fails when the file of an earlier month cannot be parsed: the file of
  January is unparsable, the file of February holds one row. \<^verbatim>\<open>read_csv\<close> raises
  in January, the loop ends there, and the table of February gets no row.
\<close>

theorem insert_data_stops_at_bad_file_counterexample:
  "(2::nat) \<in> {1..12} \<and> files broken_january_world (csv_name 2) = Some (Csv [lunch]) \<and>
   files broken_january_world (csv_name 1) = Some Unparsable \<and>
   raised (insert_data broken_january_world) = Some ParserError \<and>
   row_count (db broken_january_world) (table_name 2) = 0 \<and>
   row_count (db (final_world (insert_data broken_january_world))) (table_name 2) = 0 \<and>
   row_count (db (final_world (insert_data broken_january_world))) (table_name 2) \<noteq>
     row_count (db broken_january_world) (table_name 2) + length [lunch]"
proof -
  have a: "files broken_january_world (csv_name 2) = Some (Csv [lunch])"
    and b: "files broken_january_world (csv_name 1) = Some Unparsable"
    and c: "raised (insert_data broken_january_world) = Some ParserError"
    and d: "row_count (db broken_january_world) (table_name 2) = 0"
    and e: "row_count (db (final_world (insert_data broken_january_world))) (table_name 2) = 0"
    by code_simp+
  from a b c d e show ?thesis by simp
qed

section \<open>Properties of generate_sample_data\<close>

lemma round_half_even_bounds:
  assumes "of_int a \<le> x" "x \<le> of_int b"
  shows "a \<le> round_half_even x \<and> round_half_even x \<le> b"
proof -
  have lo: "a \<le> \<lfloor>x\<rfloor>" using assms(1) by (simp add: le_floor_iff)
  have hi: "\<lfloor>x\<rfloor> \<le> b" using assms(2) by (simp add: floor_le_iff)
  have up: "\<lfloor>x\<rfloor> + 1 \<le> b" if "x - of_int \<lfloor>x\<rfloor> > 0"
  proof -
    from that have "of_int \<lfloor>x\<rfloor> < x" by simp
    with assms(2) have "of_int \<lfloor>x\<rfloor> < (of_int b :: rat)" by linarith
    then show ?thesis by simp
  qed
  show ?thesis
    unfolding round_half_even_def Let_def using lo hi up by auto
qed

lemma random_random_range: "0 \<le> random_random k \<and> random_random k < 1"
proof -
  have "k mod 2 ^ 53 < 2 ^ 53" by simp
  then have "(of_nat (k mod 2 ^ 53) :: rat) < of_nat (2 ^ 53)" by (simp only: of_nat_less_iff)
  then show ?thesis by (simp add: random_random_def)
qed

lemma random_uniform_range:
  assumes "a \<le> b"
  shows "a \<le> random_uniform a b k \<and> random_uniform a b k \<le> b"
proof -
  have u: "0 \<le> random_random k" "random_random k \<le> 1" using random_random_range [of k] by auto
  from assms have d: "0 \<le> b - a" by simp
  have "0 \<le> (b - a) * random_random k" using d u(1) by simp
  moreover have "(b - a) * random_random k \<le> (b - a) * 1"
    using d u(2) by (rule mult_left_mono[rotated])
  ultimately show ?thesis by (simp add: random_uniform_def)
qed

lemma round2_range:
  assumes "of_int a \<le> x" "x \<le> of_int b"
  shows "of_int a \<le> round2 x \<and> round2 x \<le> of_int b \<and> (\<exists>k::int. round2 x = of_int k / 100)"
proof -
  have "of_int (a * 100) \<le> x * 100" "x * 100 \<le> of_int (b * 100)" using assms by simp_all
  from round_half_even_bounds [OF this]
  have "a * 100 \<le> round_half_even (x * 100)" "round_half_even (x * 100) \<le> b * 100" by simp_all
  then have "(of_int (a * 100) :: rat) \<le> of_int (round_half_even (x * 100))"
    "(of_int (round_half_even (x * 100)) :: rat) \<le> of_int (b * 100)"
    by (simp_all only: of_int_le_iff)
  then show ?thesis by (auto simp: round2_def)
qed


lemma random_choice_member:
  "seq \<noteq> [] \<Longrightarrow> \<exists>x \<in> set seq. random_choice seq k = Inr x"
  by (simp add: random_choice_def)

lemma set_categories:
  "set categories = {''Food'', ''Transportation'', ''Bills'', ''Groceries'', ''Subscriptions'', ''Others''}"
  unfolding categories_def by (simp only: list.set)

lemma set_payment_modes: "set payment_modes = {''Cash'', ''Online''}"
  unfolding payment_modes_def by (simp only: list.set)

lemma transaction_generated: "\<exists>t. transaction r = Inr t \<and> generated t"
proof -
  have "categories \<noteq> []" by (simp add: categories_def)
  from random_choice_member [OF this] obtain c where
    c: "c \<in> set categories" "random_choice categories (category_draw r) = Inr c" by blast
  have "payment_modes \<noteq> []" by (simp add: payment_modes_def)
  from random_choice_member [OF this] obtain p where
    p: "p \<in> set payment_modes" "random_choice payment_modes (payment_mode_draw r) = Inr p" by blast
  have a: "of_int 10 \<le> random_uniform 10 500 (amount_draw r)"
    "random_uniform 10 500 (amount_draw r) \<le> of_int 500"
    using random_uniform_range [of 10 500] by simp_all
  have b: "of_int 0 \<le> random_uniform 0 20 (cashback_draw r)"
    "random_uniform 0 20 (cashback_draw r) \<le> of_int 20"
    using random_uniform_range [of 0 20] by simp_all
  define t where "t = \<lparr>Date = str_date (date_this_year r), Category = c, Payment_Mode = p,
                    Description = sentence r,
                    Amount_Paid = round2 (random_uniform 10 500 (amount_draw r)),
                    Cashback = round2 (random_uniform 0 20 (cashback_draw r))\<rparr>"
  have run: "transaction r = Inr t" by (simp add: transaction_def c(2) p(2) t_def)
  have g1: "Category t \<in> set categories" "Payment_Mode t \<in> set payment_modes"
    using c(1) p(1) by (simp_all add: t_def)
  have g2: "10 \<le> Amount_Paid t \<and> Amount_Paid t \<le> 500 \<and> (\<exists>k::int. Amount_Paid t = of_int k / 100)"
    using round2_range [OF a] by (simp add: t_def)
  have g3: "0 \<le> Cashback t \<and> Cashback t \<le> 20 \<and> (\<exists>k::int. Cashback t = of_int k / 100)"
    using round2_range [OF b] by (simp add: t_def)
  have "generated t"
    unfolding generated_def using g1 g2 g3 unfolding set_categories set_payment_modes by blast
  with run show ?thesis by blast
qed

lemma month_data_generated:
  assumes "\<forall>t \<in> set data. generated t"
  shows "\<exists>rows. month_data rnd idx data = Inr rows \<and> length rows = length data + length idx \<and>
           (\<forall>t \<in> set rows. generated t)"
  using assms
proof (induction idx arbitrary: data)
  case Nil
  then show ?case by simp
next
  case (Cons i idx)
  from transaction_generated [of "rnd i"] obtain t where t: "transaction (rnd i) = Inr t" "generated t"
    by blast
  with Cons.prems have "\<forall>u \<in> set (data @ [t]). generated u" by simp
  from Cons.IH [OF this] t(1) show ?case by simp
qed

lemma month_rows:
  "\<exists>rows. month_data rnd [0..<500] [] = Inr rows \<and> length rows = 500 \<and> (\<forall>t \<in> set rows. generated t)"
proof -
  have "length [0..<500] = 500" by (simp only: length_upt diff_zero)
  with month_data_generated [of "[]" rnd "[0..<500]"] show ?thesis by (simp del: upt_rec_numeral)
qed

lemma generate_loop_files:
  assumes "distinct (map csv_name ms)"
  shows "\<exists>w'. generate_loop rnd ms w = Inr w' \<and> db w' = db w \<and> ui w' = ui w \<and>
     (\<forall>name. name \<notin> csv_name ` set ms \<longrightarrow> files w' name = files w name) \<and>
     (\<forall>m \<in> set ms. \<exists>rows. files w' (csv_name m) = Some (Csv rows) \<and> length rows = 500 \<and>
        (\<forall>t \<in> set rows. generated t))"
  using assms
proof (induction ms arbitrary: w)
  case Nil
  show ?case by simp
next
  case (Cons m ms)
  from month_rows [of "rnd m"] obtain rows where
    rows: "month_data (rnd m) [0..<500] [] = Inr rows" "length rows = 500" "\<forall>t \<in> set rows. generated t"
    by blast
  define w1 where "w1 = w\<lparr>files := (files w)(csv_name m \<mapsto> Csv rows)\<rparr>"
  from Cons.prems have d: "distinct (map csv_name ms)" and n: "csv_name m \<notin> csv_name ` set ms"
    by auto
  from Cons.IH [OF d, of w1] obtain w' where
    w': "generate_loop rnd ms w1 = Inr w'" "db w' = db w1" "ui w' = ui w1"
      "\<forall>name. name \<notin> csv_name ` set ms \<longrightarrow> files w' name = files w1 name"
      "\<forall>k \<in> set ms. \<exists>rows. files w' (csv_name k) = Some (Csv rows) \<and> length rows = 500 \<and>
        (\<forall>t \<in> set rows. generated t)"
    by blast
  have run: "generate_loop rnd (m # ms) w = Inr w'"
    unfolding generate_loop.simps rows(1) using w'(1) by (simp add: w1_def)
  have here: "files w' (csv_name m) = Some (Csv rows)"
    using w'(4) n by (simp add: w1_def)
  have other: "\<forall>name. name \<notin> csv_name ` set (m # ms) \<longrightarrow> files w' name = files w name"
    using w'(4) by (simp add: w1_def)
  have dbui: "db w' = db w \<and> ui w' = ui w" using w'(2,3) by (simp add: w1_def)
  have all: "\<forall>k \<in> set (m # ms). \<exists>rows. files w' (csv_name k) = Some (Csv rows) \<and> length rows = 500 \<and>
        (\<forall>t \<in> set rows. generated t)"
    using here rows(2,3) w'(5) by simp
  from run dbui other all show ?case by blast
qed

text \<open>
  Claim C10. Whatever the random source gives, \<^verbatim>\<open>generate_sample_data\<close> returns,
  and for every month in 1..12 the month's file then holds exactly 500 records. Each record
  has one of the six categories and one of the two payment modes, an amount between 10 and
  500 and a cashback between 0 and 20, both multiples of one hundredth.
\<close>

theorem generate_sample_data_records:
  "\<exists>w'. generate_sample_data rnd w = Inr w' \<and> db w' = db w \<and>
     (\<forall>m \<in> {1..12}. \<exists>rows. files w' (csv_name m) = Some (Csv rows) \<and> length rows = 500 \<and>
        (\<forall>r \<in> set rows.
           Category r \<in> {''Food'', ''Transportation'', ''Bills'', ''Groceries'', ''Subscriptions'', ''Others''} \<and>
           Payment_Mode r \<in> {''Cash'', ''Online''} \<and>
           10 \<le> Amount_Paid r \<and> Amount_Paid r \<le> 500 \<and> (\<exists>k::int. Amount_Paid r = of_int k / 100) \<and>
           0 \<le> Cashback r \<and> Cashback r \<le> 20 \<and> (\<exists>k::int. Cashback r = of_int k / 100)))"
proof -
  from generate_loop_files [OF distinct_csv_names, of rnd w] obtain w1 where
    w1: "generate_loop rnd months w = Inr w1" "db w1 = db w"
      "\<forall>m \<in> set months. \<exists>rows. files w1 (csv_name m) = Some (Csv rows) \<and> length rows = 500 \<and>
        (\<forall>t \<in> set rows. generated t)"
    by blast
  define w' where "w' = w1\<lparr>ui := ui w1 @ [Success ''Sample data generated for all 12 months.'']\<rparr>"
  have "generate_sample_data rnd w = Inr w'" using w1(1) by (simp add: generate_sample_data_def w'_def)
  moreover have "db w' = db w" using w1(2) by (simp add: w'_def)
  moreover have "\<forall>m \<in> {1..12}. \<exists>rows. files w' (csv_name m) = Some (Csv rows) \<and> length rows = 500 \<and>
        (\<forall>t \<in> set rows. generated t)"
    using w1(3) by (simp add: w'_def set_months)
  ultimately have "\<exists>w'. generate_sample_data rnd w = Inr w' \<and> db w' = db w \<and>
     (\<forall>m \<in> {1..12}. \<exists>rows. files w' (csv_name m) = Some (Csv rows) \<and> length rows = 500 \<and>
        (\<forall>t \<in> set rows. generated t))" by blast
  then show ?thesis unfolding generated_def .
qed

lemma example_transaction:
  "transaction example_draw =
     Inr \<lparr>Date = ''2024-01-15'', Category = ''Food'', Payment_Mode = ''Online'',
          Description = ''Lunch.'', Amount_Paid = 10, Cashback = 0\<rparr>"
proof -
  have d: "str_date jan15 = ''2024-01-15''" by code_simp
  have u: "random_random 0 = 0" by (simp add: random_random_def)
  have r: "round2 10 = 10" "round2 0 = 0" by (simp_all add: round2_def round_half_even_def)
  show ?thesis
    by (simp add: transaction_def example_draw_def random_choice_def categories_def
        payment_modes_def random_uniform_def d u r)
qed

theorem generate_sample_data_records_witness:
  "(3::nat) \<in> {1..12} \<and>
   (\<exists>w' rows. generate_sample_data (\<lambda>month i. example_draw) empty_world = Inr w' \<and>
      files w' (csv_name 3) = Some (Csv rows) \<and> length rows = 500)"
proof -
  have m: "(3::nat) \<in> {1..12}" by simp
  from generate_sample_data_records [of "\<lambda>month i. example_draw" empty_world] m
  show ?thesis by blast
qed

section \<open>Properties of show_total_spending\<close>





lemma mset_order_by: "mset (order_by_total_desc rank groups) = mset groups"
  by (simp add: order_by_total_desc_def)



lemma order_by_sorted:
  "sorted_wrt (\<lambda>a b. snd b \<le> snd a) (order_by_total_desc rank groups)"
proof -
  have "sorted (map (\<lambda>g. - snd g) (order_by_total_desc rank groups))"
    unfolding order_by_total_desc_def by (rule sorted_sort_key)
  then show ?thesis by (simp add: sorted_map)
qed







text \<open>
  Claim C5, amended. Whenever the query of \<^verbatim>\<open>show_total_spending\<close> returns, its
  rows are in descending order of the total, and they are the groups in some order. The
  query has no second sort key: the order of rows with equal totals is the engine's.
\<close>

theorem totals_sorted_descending:
  assumes "total_spending_query esum rank d = Inr out"
  shows "sorted_wrt (\<lambda>a b. snd b \<le> snd a) out \<and>
     (\<exists>rows. union_all d = Inr rows \<and> mset out = mset (group_by_category esum rows))"
proof -
  from assms obtain rows where rows: "union_all d = Inr rows"
    "out = order_by_total_desc rank (group_by_category esum rows)"
    by (auto simp: total_spending_query_def split: sum.splits)
  from rows order_by_sorted [of rank "group_by_category esum rows"]
    mset_order_by [of rank "group_by_category esum rows"]
  show ?thesis by simp
qed






lemma tied_food_first:
  "total_spending_query double_sum food_first (db tied_world) =
     Inr [(''Food'', 12), (''Transportation'', 12)]"
  by code_simp

theorem totals_sorted_descending_witness:
  "total_spending_query double_sum food_first (db tied_world) =
     Inr [(''Food'', 12), (''Transportation'', 12)] \<and>
   sorted_wrt (\<lambda>a b. snd b \<le> snd a) [(''Food'', 12 :: rat), (''Transportation'', 12)]"
  using totals_sorted_descending [OF tied_food_first] tied_food_first by blast

text \<open>
  Claim C5, as stated: ties are broken by category name. With Food and Transportation both
  at 12, an engine that meets Food first returns Food before Transportation, and one that
  meets it last returns Transportation before Food: the query fixes neither order.
\<close>

theorem tie_order_counterexample:
  "total_spending_query double_sum food_first (db tied_world) =
     Inr [(''Food'', 12), (''Transportation'', 12)] \<and>
   total_spending_query double_sum food_last (db tied_world) =
     Inr [(''Transportation'', 12), (''Food'', 12)] \<and>
   ''Food'' < ''Transportation''"
proof -
  have "total_spending_query double_sum food_last (db tied_world) =
      Inr [(''Transportation'', 12), (''Food'', 12)]"
    by code_simp
  with tied_food_first show ?thesis by simp
qed

end
